theory Spec2Isabelle
  imports Complex_Main
begin

section \<open>JavaScript values\<close>

text \<open>
  The library is dynamically typed JavaScript. Values that arrive from the wire (decoded
  JSON bodies) are modelled by \<open>jsval\<close>; \<open>JUndefined\<close> is what reading a missing
  property yields and \<open>JFun\<close> stands for a built-in method found on a prototype
  (the only one the library can come to hold is \<open>Array.prototype.values\<close>). Numbers
  are the finite ones (a double is a rational); NaN and the infinities cannot come out of
  \<open>JSON.parse\<close> and are left out. An object is the list of its own properties.
\<close>

type_synonym number = real

datatype jsval =
    JUndefined
  | JNull
  | JBool bool
  | JNum number
  | JStr string
  | JArr "jsval list"
  | JObj "(string \<times> jsval) list"
  | JFun string

text \<open>
  Errors are values. \<open>GeminiError message code\<close> is the library's own class (its
  \<open>name\<close> is \<open>GeminiError\<close>); \<open>JsError name message\<close> is every other error object
  (\<open>Error\<close>, \<open>TypeError\<close>, \<open>SyntaxError\<close>, the \<open>AbortError\<close> of an aborted
  fetch, ...).
\<close>

datatype error =
    GeminiError string nat
  | JsError string string

fun error_name :: "error \<Rightarrow> string" where
  "error_name (GeminiError m c) = ''GeminiError''"
| "error_name (JsError n m) = n"

fun truthy :: "jsval \<Rightarrow> bool" where
  "truthy JUndefined = False"
| "truthy JNull = False"
| "truthy (JBool b) = b"
| "truthy (JNum x) = (x \<noteq> 0)"
| "truthy (JStr s) = (s \<noteq> [])"
| "truthy (JArr xs) = True"
| "truthy (JObj kvs) = True"
| "truthy (JFun f) = True"

text \<open>The operator \<open>a || b\<close> on wire values.\<close>

definition js_or :: "jsval \<Rightarrow> jsval \<Rightarrow> jsval" where
  "js_or a b = (if truthy a then a else b)"

text \<open>
  The same operator on a caller's option field of a known type: \<open>None\<close> is a field
  left unset (\<open>undefined\<close>), and \<open>tr\<close> says which values of the type are truthy.
\<close>

definition or_default :: "('a \<Rightarrow> bool) \<Rightarrow> 'a option \<Rightarrow> 'a \<Rightarrow> 'a" where
  "or_default tr v d = (case v of None \<Rightarrow> d | Some x \<Rightarrow> if tr x then x else d)"

definition truthy_number :: "number \<Rightarrow> bool" where
  "truthy_number x = (x \<noteq> 0)"

definition truthy_nat :: "nat \<Rightarrow> bool" where
  "truthy_nat n = (n \<noteq> 0)"

definition truthy_string :: "string \<Rightarrow> bool" where
  "truthy_string s = (s \<noteq> [])"

definition truthy_array :: "'a list \<Rightarrow> bool" where
  "truthy_array xs = True"

text \<open>Sequencing of steps that may throw: the first error ends the computation.\<close>

definition then_do :: "error + 'a \<Rightarrow> ('a \<Rightarrow> error + 'b) \<Rightarrow> error + 'b" where
  "then_do m f = (case m of Inl e \<Rightarrow> Inl e | Inr v \<Rightarrow> f v)"

fun intercalate :: "string \<Rightarrow> string list \<Rightarrow> string" where
  "intercalate sep [] = []"
| "intercalate sep [x] = x"
| "intercalate sep (x # y # ys) = x @ sep @ intercalate sep (y # ys)"

text \<open>
  The conversion of a value to a string (\<open>ToString\<close>), as \<open>Error(message)\<close> and
  \<open>Array.prototype.join\<close> apply it; \<open>to_strings\<close> converts the elements of an array from
  left to right, \<open>undefined\<close> and \<open>null\<close> giving the empty string there. How a number
  prints (\<open>Number.prototype.toString\<close>) is the platform's and is taken as the parameter
  \<open>show_num\<close>. An array prints as its elements joined by commas. An object prints as
  \<open>[object Object]\<close>, unless it has an own property \<open>toString\<close>: that property hides
  \<open>Object.prototype.toString\<close>, its value gives no primitive (a decoded value is not
  callable, and \<open>Array.prototype.values\<close> returns an iterator object), \<open>valueOf\<close> gives
  none either, and the conversion throws a TypeError.
\<close>

definition type_error :: "string \<Rightarrow> error" where
  "type_error m = JsError ''TypeError'' m"

fun to_string :: "(number \<Rightarrow> string) \<Rightarrow> jsval \<Rightarrow> error + string"
  and to_strings :: "(number \<Rightarrow> string) \<Rightarrow> jsval list \<Rightarrow> error + string list"
where
  "to_string show_num JUndefined = Inr ''undefined''"
| "to_string show_num JNull = Inr ''null''"
| "to_string show_num (JBool b) = Inr (if b then ''true'' else ''false'')"
| "to_string show_num (JNum x) = Inr (show_num x)"
| "to_string show_num (JStr s) = Inr s"
| "to_string show_num (JArr xs) =
     (case to_strings show_num xs of Inl e \<Rightarrow> Inl e | Inr ss \<Rightarrow> Inr (intercalate '','' ss))"
| "to_string show_num (JObj kvs) =
     (if ''toString'' \<in> set (map fst kvs)
      then Inl (type_error ''Cannot convert object to primitive value'')
      else Inr ''[object Object]'')"
| "to_string show_num (JFun f) = Inr (''function '' @ f @ ''() { [native code] }'')"
| "to_strings show_num [] = Inr []"
| "to_strings show_num (x # xs) =
     (case (if x = JUndefined \<or> x = JNull then Inr [] else to_string show_num x) of
        Inl e \<Rightarrow> Inl e
      | Inr s \<Rightarrow> (case to_strings show_num xs of Inl e \<Rightarrow> Inl e | Inr ss \<Rightarrow> Inr (s # ss)))"

text \<open>The call \<open>xs.join(sep)\<close> on an array.\<close>

definition js_join :: "(number \<Rightarrow> string) \<Rightarrow> string \<Rightarrow> jsval list \<Rightarrow> error + string" where
  "js_join show_num sep xs =
     (case to_strings show_num xs of Inl e \<Rightarrow> Inl e | Inr ss \<Rightarrow> Inr (intercalate sep ss))"

text \<open>
  Reading a property \<open>v.k\<close>. On \<open>undefined\<close> and \<open>null\<close> it throws a TypeError. The
  cases cover the names the library reads (\<open>candidates\<close>, \<open>length\<close>, \<open>0\<close>, \<open>content\<close>,
  \<open>parts\<close>, \<open>text\<close>, \<open>safetyRatings\<close>, \<open>embeddings\<close>, \<open>values\<close>, \<open>error\<close>): of these
  only \<open>length\<close> and \<open>0\<close> exist on strings and arrays, and \<open>values\<close> is a method of
  every array.
\<close>

fun get_prop :: "jsval \<Rightarrow> string \<Rightarrow> error + jsval" where
  "get_prop JUndefined k = Inl (type_error ''Cannot read properties of undefined'')"
| "get_prop JNull k = Inl (type_error ''Cannot read properties of null'')"
| "get_prop (JObj kvs) k = Inr (case map_of kvs k of None \<Rightarrow> JUndefined | Some v \<Rightarrow> v)"
| "get_prop (JArr xs) k =
     Inr (if k = ''length'' then JNum (real (length xs))
          else if k = ''0'' then (case xs of [] \<Rightarrow> JUndefined | x # _ \<Rightarrow> x)
          else if k = ''values'' then JFun ''values''
          else JUndefined)"
| "get_prop (JStr s) k =
     Inr (if k = ''length'' then JNum (real (length s))
          else if k = ''0'' then (case s of [] \<Rightarrow> JUndefined | c # _ \<Rightarrow> JStr [c])
          else JUndefined)"
| "get_prop (JBool b) k = Inr JUndefined"
| "get_prop (JNum x) k = Inr JUndefined"
| "get_prop (JFun f) k = Inr (if k = ''length'' then JNum 0 else JUndefined)"

section \<open>The network\<close>

text \<open>
  What \<open>fetch\<close> hands back. A response carries its status, its status text and what
  \<open>response.json()\<close> settles to (a decoded body, or the error it rejects with);
  \<open>response.ok\<close> is true exactly for the statuses 200 to 299 (Fetch standard). A fetch
  that the timeout's \<open>controller.abort()\<close> cuts off rejects with an error named
  \<open>AbortError\<close>; a transport failure rejects with a \<open>TypeError\<close>.
\<close>

record response =
  status :: nat
  statusText :: string
  json :: "error + jsval"

definition ok :: "response \<Rightarrow> bool" where
  "ok r = (200 \<le> status r \<and> status r \<le> 299)"

datatype fetch_outcome =
    Rejects error
  | Resolves response

section \<open>Request payloads\<close>

datatype role = User | Model | System

text \<open>
  A content part is \<open>{text}\<close> or \<open>{inline_data: {mime_type, data}}\<close>; \<open>Undefined_part\<close>
  is an array slot that holds \<open>undefined\<close>.
\<close>

datatype part =
    Text_part string
  | Inline_data string string
  | Undefined_part

record content =
  role :: "role option"
  parts :: "part list"

record generationConfig =
  temperature :: number
  topK :: number
  topP :: number
  maxOutputTokens :: number
  stopSequences :: "string list option"

datatype payload =
    Generate_content "content list" generationConfig "jsval list option"
  | Embed_content string "part list"

text \<open>
  The effects of the library: every call of \<open>fetch\<close> (its URL and the data it posts), in
  order, and every backoff wait in milliseconds, in order.
\<close>

record net_state =
  sent :: "(string \<times> payload) list"
  sleeps :: "nat list"

definition net0 :: net_state where
  "net0 = \<lparr>sent = [], sleeps = []\<rparr>"

text \<open>
  The remote side of one execution: the outcome of the \<open>i\<close>-th call of \<open>fetch\<close>,
  counted from 0 over the whole execution.
\<close>

type_synonym network = "nat \<Rightarrow> fetch_outcome"

section \<open>GeminiClient\<close>

record client_options =
  opt_model :: "string option"
  opt_maxRetries :: "nat option"
  opt_timeout :: "nat option"

record GeminiClient =
  apiKey :: string
  baseUrl :: string
  model :: string
  maxRetries :: nat
  timeout :: nat

definition new_GeminiClient :: "string \<Rightarrow> client_options \<Rightarrow> error + GeminiClient" where
  "new_GeminiClient key options =
     (if \<not> truthy_string key then Inl (JsError ''Error'' ''API key is required'')
      else Inr \<lparr>apiKey = key,
                baseUrl = ''https://generativelanguage.googleapis.com/v1beta'',
                model = or_default truthy_string (opt_model options) ''gemini-1.5-pro'',
                maxRetries = or_default truthy_nat (opt_maxRetries options) 3,
                timeout = or_default truthy_nat (opt_timeout options) 30000\<rparr>)"

definition isRetryableError :: "error \<Rightarrow> bool" where
  "isRetryableError e =
     (case e of
        GeminiError m code \<Rightarrow> code \<in> set [429, 500, 502, 503, 504]
      | JsError name m \<Rightarrow> name = ''TypeError'' \<or> name = ''NetworkError'')"

text \<open>
  The constructor \<open>new GeminiError(message, code)\<close>: \<open>super(message)\<close> converts a
  message that is not \<open>undefined\<close> to a string, which can throw; the result is the
  error object built, or the error thrown instead.
\<close>

definition new_GeminiError :: "(number \<Rightarrow> string) \<Rightarrow> jsval \<Rightarrow> nat \<Rightarrow> error + error" where
  "new_GeminiError show_num message code =
     (if message = JUndefined then Inr (GeminiError [] code)
      else then_do (to_string show_num message) (\<lambda>m. Inr (GeminiError m code)))"

text \<open>
  The body of the \<open>try\<close> block of \<open>request\<close>, from the settled \<open>fetch\<close> on: the value
  it returns, or the error it throws into the \<open>catch\<close>.
\<close>

definition attempt :: "(number \<Rightarrow> string) \<Rightarrow> fetch_outcome \<Rightarrow> error + jsval" where
  "attempt show_num out =
     (case out of
        Rejects e \<Rightarrow> Inl e
      | Resolves r \<Rightarrow>
          if \<not> ok r then
            (case json r of
               Inl e \<Rightarrow> Inl e
             | Inr err \<Rightarrow>
                 (case get_prop err ''error'' of
                    Inl e \<Rightarrow> Inl e
                  | Inr m \<Rightarrow>
                      (case new_GeminiError show_num (js_or m (JStr (statusText r))) (status r) of
                         Inl e \<Rightarrow> Inl e
                       | Inr e \<Rightarrow> Inl e)))
          else json r)"

definition backoff :: "nat \<Rightarrow> nat" where
  "backoff retries = 2 ^ retries * 500"

text \<open>
  The \<open>while\<close> loop of \<open>request\<close>, with the counter \<open>retries\<close> as an argument. A loop
  that ends without returning makes the function return \<open>undefined\<close>.
\<close>

function request_loop ::
  "(number \<Rightarrow> string) \<Rightarrow> GeminiClient \<Rightarrow> network \<Rightarrow> string \<Rightarrow> payload \<Rightarrow> nat \<Rightarrow> net_state \<Rightarrow>
     (error + jsval) \<times> net_state"
where
  "request_loop show_num c net url data retries ns =
     (if retries \<le> maxRetries c then
        (let ns1 = ns\<lparr>sent := sent ns @ [(url, data)]\<rparr> in
         case attempt show_num (net (length (sent ns))) of
           Inr body \<Rightarrow> (Inr body, ns1)
         | Inl e \<Rightarrow>
             if error_name e = ''AbortError'' then
               (Inl (GeminiError ''Request timed out'' 408), ns1)
             else if Suc retries > maxRetries c \<or> \<not> isRetryableError e then
               (Inl e, ns1)
             else
               request_loop show_num c net url data (Suc retries)
                 (ns1\<lparr>sleeps := sleeps ns1 @ [backoff (Suc retries)]\<rparr>))
      else (Inr JUndefined, ns))"
  by pat_completeness auto
termination
  by (relation "measure (\<lambda>(show_num, c, net, url, data, retries, ns). Suc (maxRetries c) - retries)")
     auto

declare request_loop.simps [simp del]

definition request_url :: "GeminiClient \<Rightarrow> string \<Rightarrow> string" where
  "request_url c endpoint = baseUrl c @ ''/'' @ endpoint @ ''?key='' @ apiKey c"

definition request ::
  "(number \<Rightarrow> string) \<Rightarrow> GeminiClient \<Rightarrow> network \<Rightarrow> string \<Rightarrow> payload \<Rightarrow> net_state \<Rightarrow>
     (error + jsval) \<times> net_state"
where
  "request show_num c net endpoint data ns =
     request_loop show_num c net (request_url c endpoint) data 0 ns"

section \<open>Response wrappers\<close>

fun map_err :: "('a \<Rightarrow> error + 'b) \<Rightarrow> 'a list \<Rightarrow> error + 'b list" where
  "map_err f [] = Inr []"
| "map_err f (x # xs) = then_do (f x) (\<lambda>y. then_do (map_err f xs) (\<lambda>ys. Inr (y # ys)))"

text \<open>
  The call \<open>v.map(f)\<close>: only an array has the method; on anything else the call throws
  a TypeError (reading \<open>map\<close> of \<open>undefined\<close> or \<open>null\<close>, or calling what is not a
  function).
\<close>

fun js_map :: "(jsval \<Rightarrow> error + jsval) \<Rightarrow> jsval \<Rightarrow> error + jsval" where
  "js_map f (JArr xs) = then_do (map_err f xs) (\<lambda>ys. Inr (JArr ys))"
| "js_map f JUndefined = Inl (type_error ''Cannot read properties of undefined'')"
| "js_map f JNull = Inl (type_error ''Cannot read properties of null'')"
| "js_map f v = Inl (type_error ''map is not a function'')"

record TextResponse =
  raw :: jsval
  priv_candidates :: jsval

text \<open>The constructor: \<open>this._candidates = rawResponse.candidates || []\<close>.\<close>

definition new_TextResponse :: "jsval \<Rightarrow> error + TextResponse" where
  "new_TextResponse rawResponse =
     then_do (get_prop rawResponse ''candidates'')
       (\<lambda>c. Inr \<lparr>raw = rawResponse, priv_candidates = js_or c (JArr [])\<rparr>)"

definition TextResponse_text :: "(number \<Rightarrow> string) \<Rightarrow> TextResponse \<Rightarrow> error + string" where
  "TextResponse_text show_num t =
     then_do (get_prop (priv_candidates t) ''length'') (\<lambda>len.
       if len = JNum 0 then Inr []
       else
         then_do (get_prop (priv_candidates t) ''0'') (\<lambda>c0.
         then_do (get_prop c0 ''content'') (\<lambda>cont.
         then_do (get_prop cont ''parts'') (\<lambda>p.
         then_do (js_map (\<lambda>part. then_do (get_prop part ''text'') (\<lambda>tx. Inr (js_or tx (JStr []))))
                    (js_or p (JArr []))) (\<lambda>mapped.
           case mapped of
             JArr ts \<Rightarrow> js_join show_num [] ts
           | _ \<Rightarrow> Inl (type_error ''join is not a function''))))))"

definition TextResponse_candidates :: "TextResponse \<Rightarrow> jsval" where
  "TextResponse_candidates t = priv_candidates t"

definition TextResponse_safetyRatings :: "TextResponse \<Rightarrow> error + jsval" where
  "TextResponse_safetyRatings t =
     then_do (get_prop (priv_candidates t) ''length'') (\<lambda>len.
       if len = JNum 0 then Inr (JArr [])
       else
         then_do (get_prop (priv_candidates t) ''0'') (\<lambda>c0.
         then_do (get_prop c0 ''safetyRatings'') (\<lambda>r. Inr (js_or r (JArr [])))))"




section \<open>Capability handlers\<close>

text \<open>
  The per-call options object, with the types its documentation gives; \<open>None\<close> is a
  field the caller left unset.
\<close>

record options =
  gen_model :: "string option"
  gen_temperature :: "number option"
  gen_topK :: "number option"
  gen_topP :: "number option"
  gen_maxTokens :: "number option"
  gen_stopSequences :: "string list option"
  gen_safetySettings :: "jsval list option"

definition no_options :: options where
  "no_options = \<lparr>gen_model = None, gen_temperature = None, gen_topK = None, gen_topP = None,
     gen_maxTokens = None, gen_stopSequences = None, gen_safetySettings = None\<rparr>"

text \<open>The prompt of \<open>TextHandler.generate\<close>: a string, or an object with \<open>parts\<close> or \<open>text\<close>.\<close>

datatype prompt =
    Prompt_string string
  | Prompt_object "part list option" "string option"

definition generateContent_endpoint :: "string \<Rightarrow> string" where
  "generateContent_endpoint m = ''models/'' @ m @ '':generateContent''"

definition TextHandler_generate ::
  "(number \<Rightarrow> string) \<Rightarrow> GeminiClient \<Rightarrow> network \<Rightarrow> prompt \<Rightarrow> options \<Rightarrow> net_state \<Rightarrow> (error + TextResponse) \<times> net_state"
where
  "TextHandler_generate show_num c net p opts ns =
     (let m = or_default truthy_string (gen_model opts) (model c);
          endpoint = generateContent_endpoint m;
          data = Generate_content
            [\<lparr>role = None,
              parts = (case p of
                         Prompt_string s \<Rightarrow> [Text_part s]
                       | Prompt_object ps tx \<Rightarrow>
                           or_default truthy_array ps [Text_part (or_default truthy_string tx [])])\<rparr>]
            \<lparr>temperature = or_default truthy_number (gen_temperature opts) 0.7,
             topK = or_default truthy_number (gen_topK opts) 40,
             topP = or_default truthy_number (gen_topP opts) 0.95,
             maxOutputTokens = or_default truthy_number (gen_maxTokens opts) 1024,
             stopSequences = Some (or_default truthy_array (gen_stopSequences opts) [])\<rparr>
            (Some (or_default truthy_array (gen_safetySettings opts) []))
      in case request show_num c net endpoint data ns of
           (Inl e, ns') \<Rightarrow> (Inl e, ns')
         | (Inr resp, ns') \<Rightarrow> (new_TextResponse resp, ns'))"

text \<open>
  The image argument of \<open>VisionHandler.analyze\<close>: a \<open>Blob\<close> or \<open>File\<close> (its \<open>type\<close>
  and what \<open>_blobToBase64\<close> settles to), or any other value. \<open>typeof image === 'string'\<close>
  holds exactly for \<open>Value (JStr s)\<close>; \<open>Blob\<close> and \<open>File\<close> are the browser's globals.
\<close>

datatype image_arg =
    Value jsval
  | Blob string "error + string"

definition VisionHandler_analyze ::
  "(number \<Rightarrow> string) \<Rightarrow> GeminiClient \<Rightarrow> network \<Rightarrow> image_arg \<Rightarrow> string \<Rightarrow> options \<Rightarrow> net_state \<Rightarrow>
     (error + TextResponse) \<times> net_state"
where
  "VisionHandler_analyze show_num c net img p opts ns =
     (let m = or_default truthy_string (gen_model opts) (model c);
          endpoint = generateContent_endpoint m;
          imagePart =
            (case img of
               Value (JStr s) \<Rightarrow>
                 if take 5 s = ''data:'' \<or> take 4 s = ''http''
                 then Inr (Inline_data ''image/jpeg'' s)
                 else Inl (JsError ''Error'' ''Image must be a URL, base64 string, Blob, or File'')
             | Blob ty rd \<Rightarrow>
                 then_do rd (\<lambda>base64.
                   Inr (Inline_data (or_default truthy_string (Some ty) ''image/jpeg'') base64))
             | Value v \<Rightarrow> Inr Undefined_part)
      in case imagePart of
           Inl e \<Rightarrow> (Inl e, ns)
         | Inr ip \<Rightarrow>
            (let data = Generate_content
                   [\<lparr>role = None, parts = [ip, Text_part p]\<rparr>]
                   \<lparr>temperature = or_default truthy_number (gen_temperature opts) 0.7,
                    topK = or_default truthy_number (gen_topK opts) 40,
                    topP = or_default truthy_number (gen_topP opts) 0.95,
                    maxOutputTokens = or_default truthy_number (gen_maxTokens opts) 1024,
                    stopSequences = None\<rparr>
                   None
             in case request show_num c net endpoint data ns of
                  (Inl e, ns') \<Rightarrow> (Inl e, ns')
                | (Inr resp, ns') \<Rightarrow> (new_TextResponse resp, ns')))"




section \<open>ChatSession\<close>

record chat_options =
  chat_model :: "string option"
  chat_systemPrompt :: "string option"

record ChatSession =
  client :: GeminiClient
  session_model :: string
  messages :: "content list"
  systemPrompt :: string

definition new_ChatSession :: "GeminiClient \<Rightarrow> chat_options \<Rightarrow> ChatSession" where
  "new_ChatSession c opts =
     \<lparr>client = c,
      session_model = or_default truthy_string (chat_model opts) (model c),
      messages = [],
      systemPrompt = or_default truthy_string (chat_systemPrompt opts) []\<rparr>"

text \<open>
  \<open>send\<close> returns the response or the error it throws, with the session and the network
  trace as it leaves them.
\<close>

definition ChatSession_send ::
  "(number \<Rightarrow> string) \<Rightarrow> network \<Rightarrow> ChatSession \<Rightarrow> string \<Rightarrow> options \<Rightarrow> net_state \<Rightarrow>
     (error + TextResponse) \<times> ChatSession \<times> net_state"
where
  "ChatSession_send show_num net s message opts ns =
     (let s1 = s\<lparr>messages := messages s
                                                  @ [\<lparr>role = Some User, parts = [Text_part message]\<rparr>]\<rparr>;
          endpoint = generateContent_endpoint (session_model s1);
          contents = (if truthy_string (systemPrompt s1)
                      then \<lparr>role = Some System, parts = [Text_part (systemPrompt s1)]\<rparr>
                           # messages s1
                      else messages s1);
          data = Generate_content contents
                   \<lparr>temperature = or_default truthy_number (gen_temperature opts) 0.7,
                    topK = or_default truthy_number (gen_topK opts) 40,
                    topP = or_default truthy_number (gen_topP opts) 0.95,
                    maxOutputTokens = or_default truthy_number (gen_maxTokens opts) 1024,
                    stopSequences = None\<rparr>
                   None
      in case request show_num (client s1) net endpoint data ns of
           (Inl e, ns') \<Rightarrow> (Inl e, s1, ns')
         | (Inr resp, ns') \<Rightarrow>
             (case new_TextResponse resp of
                Inl e \<Rightarrow> (Inl e, s1, ns')
              | Inr textResponse \<Rightarrow>
                  (case TextResponse_text show_num textResponse of
                     Inl e \<Rightarrow> (Inl e, s1, ns')
                   | Inr tx \<Rightarrow>
                       (Inr textResponse,
                        s1\<lparr>messages := messages s1
                                                             @ [\<lparr>role = Some Model, parts = [Text_part tx]\<rparr>]\<rparr>,
                        ns'))))"

definition ChatSession_clear :: "ChatSession \<Rightarrow> ChatSession" where
  "ChatSession_clear s = s\<lparr>messages := []\<rparr>"

definition ChatSession_getHistory :: "ChatSession \<Rightarrow> content list" where
  "ChatSession_getHistory s = messages s"

text \<open>
  A caller that sends the messages one after the other, whatever each call returns or
  throws, and collects the outcomes.
\<close>

fun send_all ::
  "(number \<Rightarrow> string) \<Rightarrow> network \<Rightarrow> ChatSession \<Rightarrow> (string \<times> options) list \<Rightarrow> net_state \<Rightarrow>
     (error + TextResponse) list \<times> ChatSession \<times> net_state"
where
  "send_all show_num net s [] ns = ([], s, ns)"
| "send_all show_num net s ((message, opts) # calls) ns =
     (case ChatSession_send show_num net s message opts ns of
        (r, s1, ns1) \<Rightarrow>
          (case send_all show_num net s1 calls ns1 of
             (rs, s2, ns2) \<Rightarrow> (r # rs, s2, ns2)))"

section \<open>Auxiliary definitions\<close>

text \<open>
  What one iteration of the loop of \<open>request\<close> does with the outcome of its attempt,
  the counter being \<open>retries\<close> when the attempt starts: \<open>Some\<close> of the result when the
  call ends there, \<open>None\<close> when it waits and goes round again.
\<close>

definition settle :: "GeminiClient \<Rightarrow> nat \<Rightarrow> error + jsval \<Rightarrow> (error + jsval) option" where
  "settle c retries a =
     (case a of
        Inr body \<Rightarrow> Some (Inr body)
      | Inl e \<Rightarrow>
          if error_name e = ''AbortError'' then Some (Inl (GeminiError ''Request timed out'' 408))
          else if Suc retries > maxRetries c \<or> \<not> isRetryableError e then Some (Inl e)
          else None)"


text \<open>Concrete clients, responses and networks, used to instantiate the theorems.\<close>

definition example_client :: GeminiClient where
  "example_client =
     \<lparr>apiKey = ''key'', baseUrl = ''https://generativelanguage.googleapis.com/v1beta'',
      model = ''gemini-1.5-pro'', maxRetries = 3, timeout = 30000\<rparr>"

definition error_response :: "nat \<Rightarrow> response" where
  "error_response code =
     \<lparr>status = code, statusText = ''failed'',
      json = Inr (JObj [(''error'', JObj [(''message'', JStr ''failed'')])])\<rparr>"

definition ok_response :: "jsval \<Rightarrow> response" where
  "ok_response body = \<lparr>status = 200, statusText = ''OK'', json = Inr body\<rparr>"

definition reply_body :: "string \<Rightarrow> jsval" where
  "reply_body s =
     JObj [(''candidates'',
            JArr [JObj [(''content'', JObj [(''parts'', JArr [JObj [(''text'', JStr s)]])])]])]"

definition example_data :: payload where
  "example_data = Embed_content ''models/embedding-001'' [Text_part ''a'']"


definition failing_network :: "nat \<Rightarrow> network" where
  "failing_network code i = Resolves (error_response code)"

definition timeout_network :: network where
  "timeout_network i =
     (if i < 1 then Resolves (error_response 503)
      else Rejects (JsError ''AbortError'' ''The operation was aborted''))"

definition ok_network :: "jsval \<Rightarrow> network" where
  "ok_network body i = Resolves (ok_response body)"



text \<open>
  A printer of numbers for the examples: the decimal digits of the integer part of a
  non-negative number.
\<close>

fun show_nat :: "nat \<Rightarrow> string" where
  "show_nat n =
     (if n < 10 then [''0123456789'' ! n] else show_nat (n div 10) @ [''0123456789'' ! (n mod 10)])"

declare show_nat.simps [simp del]

definition example_show_num :: "number \<Rightarrow> string" where
  "example_show_num x = show_nat (nat \<lfloor>x\<rfloor>)"

text \<open>
  What one call of \<open>send\<close> adds to the turn log, given what the call returned or threw:
  the user turn, followed by the model turn built from the text of the response when
  the call returned one.
\<close>

definition call_turns :: "(number \<Rightarrow> string) \<Rightarrow> string \<Rightarrow> error + TextResponse \<Rightarrow> content list" where
  "call_turns show_num message r =
     \<lparr>role = Some User, parts = [Text_part message]\<rparr> #
       (case r of
          Inl e \<Rightarrow> []
        | Inr t \<Rightarrow>
            (case TextResponse_text show_num t of
               Inl e \<Rightarrow> []
             | Inr tx \<Rightarrow> [\<lparr>role = Some Model, parts = [Text_part tx]\<rparr>]))"

definition chat_network :: network where
  "chat_network i = Resolves (ok_response (reply_body (if i = 0 then ''hello'' else ''sure'')))"

definition broken_chat_network :: network where
  "broken_chat_network i =
     (if i = 0 then Resolves (ok_response (reply_body ''hello'')) else Resolves (error_response 400))"

definition example_session :: ChatSession where
  "example_session = new_ChatSession example_client \<lparr>chat_model = None, chat_systemPrompt = None\<rparr>"

definition system_session :: ChatSession where
  "system_session =
     new_ChatSession example_client \<lparr>chat_model = None, chat_systemPrompt = Some ''Be brief.''\<rparr>"

definition null_error_response :: response where
  "null_error_response = \<lparr>status = 400, statusText = ''Bad Request'', json = Inr JNull\<rparr>"

definition null_400_network :: network where
  "null_400_network i = Resolves null_error_response"


section \<open>The request loop\<close>

lemma request_loop_stop:
  assumes "retries \<le> maxRetries c"
    and "settle c retries (attempt show_num (net (length (sent ns)))) = Some res"
  shows "request_loop show_num c net url data retries ns = (res, ns\<lparr>sent := sent ns @ [(url, data)]\<rparr>)"
  using assms
  by (subst request_loop.simps) (auto simp: settle_def Let_def split: sum.splits if_splits)

lemma request_loop_go:
  assumes "retries \<le> maxRetries c"
    and "settle c retries (attempt show_num (net (length (sent ns)))) = None"
  shows "request_loop show_num c net url data retries ns =
         request_loop show_num c net url data (Suc retries)
           (ns\<lparr>sent := sent ns @ [(url, data)], sleeps := sleeps ns @ [backoff (Suc retries)]\<rparr>)"
  using assms
  by (subst request_loop.simps) (auto simp: settle_def Let_def split: sum.splits if_splits)

lemma settle_None_less: "settle c retries a = None \<Longrightarrow> Suc retries \<le> maxRetries c"
  by (auto simp: settle_def split: sum.splits if_splits)

lemma request_loop_prefix:
  assumes "\<forall>j<n. settle c (retries + j) (attempt show_num (net (length (sent ns) + j))) = None"
    and "retries \<le> maxRetries c"
  shows "request_loop show_num c net url data retries ns =
         request_loop show_num c net url data (retries + n)
           (ns\<lparr>sent := sent ns @ replicate n (url, data),
               sleeps := sleeps ns @ map backoff [Suc retries ..< Suc (retries + n)]\<rparr>)"
  using assms
proof (induction n arbitrary: retries ns)
  case 0
  then show ?case by simp
next
  case (Suc n)
  from Suc.prems(1) have first: "settle c retries (attempt show_num (net (length (sent ns)))) = None"
    by (metis add.right_neutral zero_less_Suc)
  let ?ns1 = "ns\<lparr>sent := sent ns @ [(url, data)], sleeps := sleeps ns @ [backoff (Suc retries)]\<rparr>"
  have rest: "\<forall>j<n. settle c (Suc retries + j) (attempt show_num (net (length (sent ?ns1) + j))) = None"
  proof (intro allI impI)
    fix j assume "j < n"
    then have "settle c (retries + Suc j) (attempt show_num (net (length (sent ns) + Suc j))) = None"
      using Suc.prems(1) by (meson Suc_less_eq)
    then show "settle c (Suc retries + j) (attempt show_num (net (length (sent ?ns1) + j))) = None"
      by simp
  qed
  have le: "Suc retries \<le> maxRetries c"
    using first by (rule settle_None_less)
  have "request_loop show_num c net url data retries ns = request_loop show_num c net url data (Suc retries) ?ns1"
    using Suc.prems(2) first by (rule request_loop_go)
  also have "\<dots> = request_loop show_num c net url data (Suc retries + n)
           (?ns1\<lparr>sent := sent ?ns1 @ replicate n (url, data),
               sleeps := sleeps ?ns1 @ map backoff [Suc (Suc retries) ..< Suc (Suc retries + n)]\<rparr>)"
    using rest le by (rule Suc.IH)
  also have "\<dots> = request_loop show_num c net url data (retries + Suc n)
           (ns\<lparr>sent := sent ns @ replicate (Suc n) (url, data),
               sleeps := sleeps ns @ map backoff [Suc retries ..< Suc (retries + Suc n)]\<rparr>)"
    by (simp add: replicate_app_Cons_same upt_conv_Cons del: upt_Suc)
  finally show ?case .
qed


lemma request_loop_char:
  assumes "retries \<le> maxRetries c"
  shows "\<exists>n res. retries + n \<le> maxRetries c
           \<and> (\<forall>j<n. settle c (retries + j) (attempt show_num (net (length (sent ns) + j))) = None)
           \<and> settle c (retries + n) (attempt show_num (net (length (sent ns) + n))) = Some res
           \<and> request_loop show_num c net url data retries ns =
               (res, ns\<lparr>sent := sent ns @ replicate (Suc n) (url, data),
                         sleeps := sleeps ns @ map backoff [Suc retries ..< Suc (retries + n)]\<rparr>)"
proof -
  let ?P = "\<lambda>j. settle c (retries + j) (attempt show_num (net (length (sent ns) + j))) \<noteq> None"
  have "?P (maxRetries c - retries)"
    using assms by (auto simp: settle_def split: sum.splits)
  then have ex: "\<exists>j. ?P j" ..
  define n where "n = (LEAST j. ?P j)"
  have Pn: "?P n" unfolding n_def using ex by (rule LeastI_ex)
  have before: "\<forall>j<n. settle c (retries + j) (attempt show_num (net (length (sent ns) + j))) = None"
    unfolding n_def using not_less_Least by blast
  from Pn obtain res where res: "settle c (retries + n) (attempt show_num (net (length (sent ns) + n))) = Some res"
    by blast
  have le: "retries + n \<le> maxRetries c"
  proof (cases n)
    case 0
    then show ?thesis using assms by simp
  next
    case (Suc k)
    then have "settle c (retries + k) (attempt show_num (net (length (sent ns) + k))) = None"
      using before by simp
    then have "Suc (retries + k) \<le> maxRetries c" by (rule settle_None_less)
    then show ?thesis using Suc by simp
  qed
  let ?ns = "ns\<lparr>sent := sent ns @ replicate n (url, data),
               sleeps := sleeps ns @ map backoff [Suc retries ..< Suc (retries + n)]\<rparr>"
  have "request_loop show_num c net url data retries ns = request_loop show_num c net url data (retries + n) ?ns"
    using before assms by (rule request_loop_prefix)
  also have "\<dots> = (res, ?ns\<lparr>sent := sent ?ns @ [(url, data)]\<rparr>)"
    using le res by (intro request_loop_stop) simp_all
  also have "\<dots> = (res, ns\<lparr>sent := sent ns @ replicate (Suc n) (url, data),
                         sleeps := sleeps ns @ map backoff [Suc retries ..< Suc (retries + n)]\<rparr>)"
    by (simp add: replicate_append_same)
  finally show ?thesis using le before res by blast
qed


lemma attempt_error_response:
  "attempt show_num (Resolves (error_response code)) =
     (if 200 \<le> code \<and> code \<le> 299 then Inr (JObj [(''error'', JObj [(''message'', JStr ''failed'')])])
      else Inl (GeminiError ''[object Object]'' code))"
  by (simp add: attempt_def error_response_def ok_def js_or_def new_GeminiError_def then_do_def)

lemma attempt_Inr_iff:
  "attempt show_num out = Inr body \<longleftrightarrow> (\<exists>r. out = Resolves r \<and> ok r \<and> json r = Inr body)"
  by (cases out) (auto simp: attempt_def split: sum.splits)

lemma attempt_ok_response: "attempt show_num (Resolves (ok_response body)) = Inr body"
  by (simp add: attempt_def ok_response_def ok_def)


lemma request_run:
  assumes "\<forall>j<n. settle c j (attempt show_num (net (length (sent ns) + j))) = None"
    and "settle c n (attempt show_num (net (length (sent ns) + n))) = Some res"
  shows "request show_num c net endpoint data ns =
           (res, ns\<lparr>sent := sent ns @ replicate (Suc n) (request_url c endpoint, data),
                     sleeps := sleeps ns @ map backoff [1 ..< Suc n]\<rparr>)"
proof -
  have le: "n \<le> maxRetries c"
  proof (cases n)
    case 0
    then show ?thesis by simp
  next
    case (Suc k)
    with assms(1) have "settle c k (attempt show_num (net (length (sent ns) + k))) = None" by simp
    then have "Suc k \<le> maxRetries c" by (rule settle_None_less)
    with Suc show ?thesis by simp
  qed
  let ?url = "request_url c endpoint"
  let ?ns = "ns\<lparr>sent := sent ns @ replicate n (?url, data),
               sleeps := sleeps ns @ map backoff [Suc 0 ..< Suc (0 + n)]\<rparr>"
  have "request show_num c net endpoint data ns = request_loop show_num c net ?url data (0 + n) ?ns"
    unfolding request_def using assms(1) by (intro request_loop_prefix) simp_all
  also have "\<dots> = (res, ?ns\<lparr>sent := sent ?ns @ [(?url, data)]\<rparr>)"
    using le assms(2) by (intro request_loop_stop) simp_all
  finally show ?thesis by (simp add: replicate_append_same)
qed

lemma settle_example_503:
  "settle example_client j (Inl (GeminiError m 503)) =
     (if j < 3 then None else Some (Inl (GeminiError m 503)))"
  by (auto simp: settle_def example_client_def isRetryableError_def)

lemma backoff_three: "map backoff [Suc 0 ..< 4] = [1000, 2000, 4000]"
  by (simp add: backoff_def upt_rec)

lemma replicate_Suc_3: "replicate (Suc 3) x = replicate 4 x"
  by (simp add: numeral_eq_Suc)




text \<open>
  Claim C3. When an attempt of a call of \<open>request\<close> is aborted by the timeout (the
  attempt throws an error named \<open>AbortError\<close>), the call fails with a
  \<open>GeminiError\<close> of code 408 at once: that attempt is the last call of \<open>fetch\<close>, and
  the only waits of the call are those before the earlier retries; none follows the
  abort. This holds for every client, whatever its \<open>maxRetries\<close>.
\<close>

theorem request_timeout_not_retried:
  assumes "request show_num c net endpoint data ns = (res, ns')"
    and "length (sent ns) \<le> i" and "i < length (sent ns')"
    and "attempt show_num (net i) = Inl e" and "error_name e = ''AbortError''"
  shows "res = Inl (GeminiError ''Request timed out'' 408)
         \<and> length (sent ns') = Suc i
         \<and> sleeps ns' = sleeps ns @ map backoff [1 ..< Suc (i - length (sent ns))]"
proof -
  obtain n r where
    before: "\<forall>j<n. settle c (0 + j) (attempt show_num (net (length (sent ns) + j))) = None"
    and last: "settle c (0 + n) (attempt show_num (net (length (sent ns) + n))) = Some r"
    and run: "request_loop show_num c net (request_url c endpoint) data 0 ns =
               (r, ns\<lparr>sent := sent ns @ replicate (Suc n) (request_url c endpoint, data),
                        sleeps := sleeps ns @ map backoff [Suc 0 ..< Suc (0 + n)]\<rparr>)"
    using request_loop_char [where retries = 0 and c = c and show_num = show_num and net = net
        and ns = ns and url = "request_url c endpoint" and data = data] by auto
  from run assms(1) have res: "res = r"
    and ns': "ns' = ns\<lparr>sent := sent ns @ replicate (Suc n) (request_url c endpoint, data),
                        sleeps := sleeps ns @ map backoff [Suc 0 ..< Suc (0 + n)]\<rparr>"
    by (simp_all add: request_def)
  define j where "j = i - length (sent ns)"
  have i: "i = length (sent ns) + j" using assms(2) by (simp add: j_def)
  have "j \<le> n" using assms(3) by (simp add: ns' i)
  have stops: "settle c j (attempt show_num (net (length (sent ns) + j))) =
                 Some (Inl (GeminiError ''Request timed out'' 408))"
    using assms(4,5) by (simp add: settle_def i)
  have "j = n"
  proof (rule ccontr)
    assume "j \<noteq> n"
    with \<open>j \<le> n\<close> have "j < n" by simp
    with before have "settle c (0 + j) (attempt show_num (net (length (sent ns) + j))) = None" by blast
    with stops show False by simp
  qed
  with stops last have "r = Inl (GeminiError ''Request timed out'' 408)" by simp
  with res ns' \<open>j = n\<close> show ?thesis by (simp add: i)
qed

theorem request_timeout_not_retried_witness:
  "request example_show_num example_client timeout_network ''models'' example_data net0 =
     (Inl (GeminiError ''Request timed out'' 408),
      \<lparr>sent = replicate 2 (request_url example_client ''models'', example_data), sleeps = [1000]\<rparr>)
   \<and> attempt example_show_num (timeout_network 1) = Inl (JsError ''AbortError'' ''The operation was aborted'')"
proof -
  let ?ns' = "\<lparr>sent = replicate 2 (request_url example_client ''models'', example_data),
              sleeps = [1000]\<rparr>"
  have a: "attempt example_show_num (timeout_network 1) = Inl (JsError ''AbortError'' ''The operation was aborted'')"
    by (simp add: timeout_network_def attempt_def)
  have "\<forall>j<1. settle example_client j (attempt example_show_num (timeout_network (length (sent net0) + j))) = None"
    by (simp add: net0_def timeout_network_def attempt_error_response settle_example_503)
  moreover have "settle example_client 1 (attempt example_show_num (timeout_network (length (sent net0) + 1))) =
      Some (Inl (GeminiError ''Request timed out'' 408))"
    by (simp add: net0_def timeout_network_def attempt_def settle_def)
  ultimately have "request example_show_num example_client timeout_network ''models'' example_data net0 =
      (Inl (GeminiError ''Request timed out'' 408),
       net0\<lparr>sent := sent net0 @ replicate (Suc 1) (request_url example_client ''models'', example_data),
            sleeps := sleeps net0 @ map backoff [1 ..< Suc 1]\<rparr>)"
    by (rule request_run)
  then obtain res where
    run: "request example_show_num example_client timeout_network ''models'' example_data net0 = (res, ?ns')"
    by (simp add: net0_def backoff_def numeral_2_eq_2)
  have h2: "length (sent net0) \<le> 1" by (simp add: net0_def)
  have h3: "1 < length (sent ?ns')" by simp
  have h5: "error_name (JsError ''AbortError'' ''The operation was aborted'') = ''AbortError''"
    by simp
  from request_timeout_not_retried [OF run h2 h3 a h5] run a
  show ?thesis by simp
qed

text \<open>
  What does hold for a response of status 400: when the attempt builds the Service
  Error, the call ends there, after one call of \<open>fetch\<close> and without a wait, and a
  Service Error is retryable exactly for the codes 429, 500, 502, 503 and 504.
\<close>

lemma isRetryableError_GeminiError:
  "isRetryableError (GeminiError m code) = (code \<in> {429, 500, 502, 503, 504})"
  by (simp add: isRetryableError_def)

lemma service_error_400_not_retried:
  assumes "attempt show_num (net (length (sent ns))) = Inl (GeminiError m 400)"
  shows "request show_num c net endpoint data ns =
           (Inl (GeminiError m 400), ns\<lparr>sent := sent ns @ [(request_url c endpoint, data)]\<rparr>)"
proof -
  have "request show_num c net endpoint data ns =
          (Inl (GeminiError m 400),
           ns\<lparr>sent := sent ns @ replicate (Suc 0) (request_url c endpoint, data),
              sleeps := sleeps ns @ map backoff [1 ..< Suc 0]\<rparr>)"
    using assms by (intro request_run) (simp_all add: settle_def isRetryableError_def)
  then show ?thesis by simp
qed

lemma attempt_status_400:
  assumes "status r = 400" and "json r = Inr v" and "get_prop v ''error'' = Inr p"
    and "to_string show_num (js_or p (JStr (statusText r))) = Inr m"
  shows "attempt show_num (Resolves r) = Inl (GeminiError m 400)"
  using assms
  by (auto simp: attempt_def ok_def new_GeminiError_def then_do_def js_or_def split: if_splits)

text \<open>
  Claim C4, evaluated on the code. A response of status 400 whose body is the JSON value
  \<open>null\<close> makes \<open>error.error\<close> throw a TypeError inside the \<open>try\<close>, and one whose
  \<open>error\<close> cannot be turned into a string makes the constructor of the Service Error
  throw one; the \<open>catch\<close> takes the TypeError for a network failure, which is
  retryable, so the call waits and calls \<open>fetch\<close> again: four calls and three waits
  with the default budget, not one call.
\<close>

theorem status_400_null_body_is_retried:
  "attempt example_show_num (Resolves null_error_response) =
     Inl (JsError ''TypeError'' ''Cannot read properties of null'')
   \<and> attempt example_show_num
        (Resolves \<lparr>status = 400, statusText = ''Bad Request'',
                   json = Inr (JObj [(''error'', JObj [(''toString'', JNum 1)])])\<rparr>) =
       Inl (JsError ''TypeError'' ''Cannot convert object to primitive value'')
   \<and> isRetryableError (JsError ''TypeError'' ''Cannot read properties of null'')
   \<and> request example_show_num example_client null_400_network ''models'' example_data net0 =
       (Inl (JsError ''TypeError'' ''Cannot read properties of null''),
        \<lparr>sent = replicate 4 (request_url example_client ''models'', example_data),
         sleeps = [1000, 2000, 4000]\<rparr>)"
proof -
  have a: "attempt example_show_num (Resolves null_error_response) =
      Inl (JsError ''TypeError'' ''Cannot read properties of null'')"
    by (simp add: attempt_def null_error_response_def ok_def type_error_def)
  have b: "attempt example_show_num
        (Resolves \<lparr>status = 400, statusText = ''Bad Request'',
                   json = Inr (JObj [(''error'', JObj [(''toString'', JNum 1)])])\<rparr>) =
       Inl (JsError ''TypeError'' ''Cannot convert object to primitive value'')"
    by (simp add: attempt_def ok_def js_or_def new_GeminiError_def then_do_def type_error_def)
  have r: "isRetryableError (JsError ''TypeError'' ''Cannot read properties of null'')"
    by (simp add: isRetryableError_def)
  have s: "settle example_client j (Inl (JsError ''TypeError'' ''Cannot read properties of null'')) =
      (if j < 3 then None else Some (Inl (JsError ''TypeError'' ''Cannot read properties of null'')))"
    for j
    by (auto simp: settle_def example_client_def isRetryableError_def)
  have "\<forall>j<3. settle example_client j
                 (attempt example_show_num (null_400_network (length (sent net0) + j))) = None"
    by (simp add: null_400_network_def a s)
  moreover have "settle example_client 3
                 (attempt example_show_num (null_400_network (length (sent net0) + 3))) =
              Some (Inl (JsError ''TypeError'' ''Cannot read properties of null''))"
    by (simp add: null_400_network_def a s)
  ultimately have "request example_show_num example_client null_400_network ''models'' example_data net0 =
      (Inl (JsError ''TypeError'' ''Cannot read properties of null''),
       net0\<lparr>sent := sent net0 @ replicate (Suc 3) (request_url example_client ''models'', example_data),
            sleeps := sleeps net0 @ map backoff [1 ..< Suc 3]\<rparr>)"
    by (rule request_run)
  then have "request example_show_num example_client null_400_network ''models'' example_data net0 =
       (Inl (JsError ''TypeError'' ''Cannot read properties of null''),
        \<lparr>sent = replicate 4 (request_url example_client ''models'', example_data),
         sleeps = [1000, 2000, 4000]\<rparr>)"
    by (simp add: net0_def backoff_three replicate_Suc_3 del: replicate_Suc)
  with a b r show ?thesis by (intro conjI)
qed

text \<open>
  Claim C7, evaluated on the code. A client constructed with \<open>maxRetries: 0\<close> stores the
  retry budget 3, since \<open>0 || 3\<close> is 3; against a service that always answers 503 its
  \<open>request\<close> calls \<open>fetch\<close> four times and waits three times, not once and never.
\<close>

theorem maxRetries_zero_becomes_three:
  "new_GeminiClient ''key'' \<lparr>opt_model = None, opt_maxRetries = Some 0, opt_timeout = None\<rparr>
     = Inr example_client
   \<and> maxRetries example_client = 3
   \<and> request example_show_num example_client (failing_network 503) ''models'' example_data net0 =
       (Inl (GeminiError ''[object Object]'' 503),
        \<lparr>sent = replicate 4 (request_url example_client ''models'', example_data),
         sleeps = [1000, 2000, 4000]\<rparr>)"
proof -
  have "\<forall>j<3. settle example_client j
                 (attempt example_show_num (failing_network 503 (length (sent net0) + j))) = None"
    by (simp add: failing_network_def attempt_error_response settle_example_503)
  moreover have "settle example_client 3
                 (attempt example_show_num (failing_network 503 (length (sent net0) + 3))) =
              Some (Inl (GeminiError ''[object Object]'' 503))"
    by (simp add: failing_network_def attempt_error_response settle_example_503)
  ultimately have "request example_show_num example_client (failing_network 503) ''models'' example_data net0 =
      (Inl (GeminiError ''[object Object]'' 503),
       net0\<lparr>sent := sent net0 @ replicate (Suc 3) (request_url example_client ''models'', example_data),
            sleeps := sleeps net0 @ map backoff [1 ..< Suc 3]\<rparr>)"
    by (rule request_run)
  then have run: "request example_show_num example_client (failing_network 503) ''models'' example_data net0 =
       (Inl (GeminiError ''[object Object]'' 503),
        \<lparr>sent = replicate 4 (request_url example_client ''models'', example_data),
         sleeps = [1000, 2000, 4000]\<rparr>)"
    by (simp add: net0_def backoff_three replicate_Suc_3 del: replicate_Suc)
  have new: "new_GeminiClient ''key'' \<lparr>opt_model = None, opt_maxRetries = Some 0, opt_timeout = None\<rparr>
     = Inr example_client"
    by (simp add: new_GeminiClient_def example_client_def or_default_def truthy_nat_def
        truthy_string_def)
  have "maxRetries example_client = 3" by (simp add: example_client_def)
  with new run show ?thesis by blast
qed


section \<open>Response wrappers and handlers\<close>

lemma request_ok:
  assumes "attempt show_num (net (length (sent ns))) = Inr body"
  shows "request show_num c net endpoint data ns =
           (Inr body, ns\<lparr>sent := sent ns @ [(request_url c endpoint, data)]\<rparr>)"
proof -
  have "request show_num c net endpoint data ns =
          (Inr body, ns\<lparr>sent := sent ns @ replicate (Suc 0) (request_url c endpoint, data),
                     sleeps := sleeps ns @ map backoff [1 ..< Suc 0]\<rparr>)"
    using assms by (intro request_run) (simp_all add: settle_def)
  then show ?thesis by simp
qed

lemma request_ok_network:
  "request show_num c (ok_network body) endpoint data ns =
     (Inr body, ns\<lparr>sent := sent ns @ [(request_url c endpoint, data)]\<rparr>)"
  by (rule request_ok) (simp add: ok_network_def attempt_ok_response)

lemma request_sent:
  "\<exists>n. sent (snd (request show_num c net endpoint data ns)) =
         sent ns @ replicate (Suc n) (request_url c endpoint, data)"
  using request_loop_char [where retries = 0 and c = c and show_num = show_num and net = net
      and ns = ns and url = "request_url c endpoint" and data = data]
  by (auto simp: request_def)

text \<open>
  Claim C10. For every raw response body whose \<open>candidates\<close> is absent or an empty list,
  the wrapper is built and its accessors return without reading candidate 0:
  \<open>text()\<close> is the empty string and \<open>safetyRatings()\<close> the empty sequence.
\<close>

theorem TextResponse_accessors_total:
  assumes "get_prop rawResponse ''candidates'' = Inr cs"
    and "cs = JUndefined \<or> cs = JArr []"
  shows "\<exists>t. new_TextResponse rawResponse = Inr t
             \<and> TextResponse_text show_num t = Inr []
             \<and> TextResponse_safetyRatings t = Inr (JArr [])"
  using assms
  by (auto simp: new_TextResponse_def TextResponse_text_def TextResponse_safetyRatings_def
      then_do_def js_or_def)

theorem TextResponse_accessors_total_witness:
  "(\<exists>t. new_TextResponse (JObj []) = Inr t
             \<and> TextResponse_text example_show_num t = Inr []
             \<and> TextResponse_safetyRatings t = Inr (JArr []))
   \<and> (\<exists>t. new_TextResponse (JObj [(''candidates'', JArr [])]) = Inr t
             \<and> TextResponse_text example_show_num t = Inr []
             \<and> TextResponse_safetyRatings t = Inr (JArr []))"
proof -
  have a: "get_prop (JObj []) ''candidates'' = Inr JUndefined" by simp
  have b: "get_prop (JObj [(''candidates'', JArr [])]) ''candidates'' = Inr (JArr [])" by simp
  show ?thesis
    using TextResponse_accessors_total [OF a, of example_show_num]
      TextResponse_accessors_total [OF b, of example_show_num] by simp
qed







text \<open>
  Claim C5, evaluated on the code. For an image that is a plain number neither branch
  of \<open>VisionHandler.analyze\<close> is taken and nothing is thrown: \<open>imagePart\<close> stays
  \<open>undefined\<close>, the request is posted with it, and the call returns the wrapped
  response. One call of \<open>fetch\<close> is made, not zero.
\<close>

theorem vision_number_image_is_sent:
  "VisionHandler_analyze example_show_num example_client (ok_network (reply_body ''a cat'')) (Value (JNum 42))
     ''Describe this image in detail'' no_options net0 =
     (new_TextResponse (reply_body ''a cat''),
      \<lparr>sent = [(request_url example_client (generateContent_endpoint ''gemini-1.5-pro''),
                 Generate_content
                   [\<lparr>role = None,
                     parts = [Undefined_part, Text_part ''Describe this image in detail'']\<rparr>]
                   \<lparr>temperature = 0.7, topK = 40, topP = 0.95, maxOutputTokens = 1024,
                    stopSequences = None\<rparr>
                   None)],
       sleeps = []\<rparr>)
   \<and> (\<exists>t. new_TextResponse (reply_body ''a cat'') = Inr t)"
proof -
  have m: "model example_client = ''gemini-1.5-pro''" by (simp add: example_client_def)
  show ?thesis
    by (simp add: VisionHandler_analyze_def Let_def request_ok_network no_options_def
        or_default_def m net0_def new_TextResponse_def reply_body_def then_do_def)
qed

text \<open>
  Claim C6, evaluated on the code. \<open>TextHandler.generate\<close> called with
  \<open>temperature: 0\<close> posts the default temperature 0.7, since \<open>0 || 0.7\<close> is 0.7: the
  value the caller set is not used as given.
\<close>

theorem temperature_zero_becomes_default:
  "TextHandler_generate example_show_num example_client (ok_network (reply_body ''hello'')) (Prompt_string ''hi'')
     (no_options\<lparr>gen_temperature := Some 0\<rparr>) net0 =
     (new_TextResponse (reply_body ''hello''),
      \<lparr>sent = [(request_url example_client (generateContent_endpoint ''gemini-1.5-pro''),
                 Generate_content
                   [\<lparr>role = None, parts = [Text_part ''hi'']\<rparr>]
                   \<lparr>temperature = 0.7, topK = 40, topP = 0.95, maxOutputTokens = 1024,
                    stopSequences = Some []\<rparr>
                   (Some []))],
       sleeps = []\<rparr>)"
proof -
  have m: "model example_client = ''gemini-1.5-pro''" by (simp add: example_client_def)
  show ?thesis
    by (simp add: TextHandler_generate_def Let_def request_ok_network no_options_def
        or_default_def truthy_number_def m net0_def)
qed


section \<open>The chat session\<close>

lemma send_session:
  assumes "ChatSession_send show_num net s message opts ns = (r, s', ns')"
  shows "messages s' = messages s @ call_turns show_num message r"
    and "client s' = client s" and "session_model s' = session_model s"
    and "systemPrompt s' = systemPrompt s"
  using assms
  by (auto simp: ChatSession_send_def Let_def call_turns_def split: prod.splits sum.splits)

lemma send_all_session:
  assumes "send_all show_num net s calls ns = (rs, s', ns')"
  shows "length rs = length calls
         \<and> messages s' = messages s @ concat (map2 (call_turns show_num) (map fst calls) rs)
         \<and> systemPrompt s' = systemPrompt s"
  using assms
proof (induction calls arbitrary: s ns rs s' ns')
  case Nil
  then show ?case by simp
next
  case (Cons call calls)
  obtain message opts where call: "call = (message, opts)" by (cases call)
  obtain r s1 ns1 where one: "ChatSession_send show_num net s message opts ns = (r, s1, ns1)"
    by (cases "ChatSession_send show_num net s message opts ns")
  obtain rs1 s2 ns2 where rest: "send_all show_num net s1 calls ns1 = (rs1, s2, ns2)"
    by (cases "send_all show_num net s1 calls ns1")
  from Cons.prems call one rest have rs: "rs = r # rs1" and s': "s' = s2" by simp_all
  from Cons.IH [OF rest] send_session(1,4) [OF one] show ?case
    unfolding rs s' call by simp
qed

lemma send_request_succeeded:
  assumes "ChatSession_send show_num net s message opts ns = (Inr t, s', ns')"
  shows "\<exists>cfg body.
           request show_num (client s) net (generateContent_endpoint (session_model s))
             (Generate_content
                (if truthy_string (systemPrompt s)
                 then \<lparr>role = Some System, parts = [Text_part (systemPrompt s)]\<rparr>
                      # messages s
                      @ [\<lparr>role = Some User, parts = [Text_part message]\<rparr>]
                 else messages s
                                    @ [\<lparr>role = Some User, parts = [Text_part message]\<rparr>]) cfg None) ns = (Inr body, ns')
           \<and> new_TextResponse body = Inr t"
  using assms
  by (auto simp: ChatSession_send_def Let_def split: prod.splits sum.splits if_splits)

lemma send_returns_text:
  assumes "ChatSession_send show_num net s message opts ns = (Inr t, s', ns')"
  shows "\<exists>tx. TextResponse_text show_num t = Inr tx"
  using assms
  by (auto simp: ChatSession_send_def Let_def split: prod.splits sum.splits)

lemma send_all_returns_text:
  assumes "send_all show_num net s calls ns = (rs, s', ns')" and "Inr t \<in> set rs"
  shows "\<exists>tx. TextResponse_text show_num t = Inr tx"
  using assms
proof (induction calls arbitrary: s ns rs s' ns')
  case Nil
  then show ?case by simp
next
  case (Cons call calls)
  obtain message opts where call: "call = (message, opts)" by (cases call)
  obtain r s1 ns1 where one: "ChatSession_send show_num net s message opts ns = (r, s1, ns1)"
    by (cases "ChatSession_send show_num net s message opts ns")
  obtain rs1 s2 ns2 where rest: "send_all show_num net s1 calls ns1 = (rs1, s2, ns2)"
    by (cases "send_all show_num net s1 calls ns1")
  from Cons.prems(1) call one rest have rs: "rs = r # rs1" by simp
  with Cons.prems(2) consider "r = Inr t" | "Inr t \<in> set rs1" by auto
  then show ?case
  proof cases
    case 1
    with one show ?thesis by (auto dest: send_returns_text)
  next
    case 2
    with rest show ?thesis by (rule Cons.IH)
  qed
qed

text \<open>
  Claim C2. For every sequence of calls of \<open>send\<close> on a session whose turn log is
  empty, the log afterwards is the concatenation, in call order, of the user turn of
  each call followed by one model turn exactly for the calls that returned a response;
  a call that throws leaves its user turn and nothing else. A call returns a response
  only if its network request succeeded. So two successful sends leave
  \<open>[user, model, user, model]\<close>, and a second send that fails leaves
  \<open>[user, model, user]\<close>.
\<close>

theorem chat_turn_log:
  assumes "messages s = []"
    and "send_all show_num net s calls ns = (rs, s', ns')"
  shows "length rs = length calls
         \<and> messages s' = concat (map2 (call_turns show_num) (map fst calls) rs)
         \<and> (\<forall>t. Inr t \<in> set rs \<longrightarrow> (\<exists>tx. TextResponse_text show_num t = Inr tx))
         \<and> (\<forall>s0 message opts ns0 t s1 ns1.
               ChatSession_send show_num net s0 message opts ns0 = (Inr t, s1, ns1) \<longrightarrow>
               (\<exists>cfg body.
                  request show_num (client s0) net (generateContent_endpoint (session_model s0))
                    (Generate_content
                       (if truthy_string (systemPrompt s0)
                        then \<lparr>role = Some System, parts = [Text_part (systemPrompt s0)]\<rparr>
                             # messages s0
                             @ [\<lparr>role = Some User, parts = [Text_part message]\<rparr>]
                        else messages s0
                                            @ [\<lparr>role = Some User, parts = [Text_part message]\<rparr>]) cfg None) ns0 = (Inr body, ns1)
                  \<and> new_TextResponse body = Inr t))
         \<and> (\<forall>m1 o1 m2 o2 t1 t2.
               calls = [(m1, o1), (m2, o2)] \<and> rs = [Inr t1, Inr t2] \<longrightarrow>
               (\<exists>x1 x2. messages s' = [\<lparr>role = Some User, parts = [Text_part m1]\<rparr>,
                                               \<lparr>role = Some Model, parts = [Text_part x1]\<rparr>,
                                               \<lparr>role = Some User, parts = [Text_part m2]\<rparr>,
                                               \<lparr>role = Some Model, parts = [Text_part x2]\<rparr>]
                   \<and> TextResponse_text show_num t1 = Inr x1
                   \<and> TextResponse_text show_num t2 = Inr x2))
         \<and> (\<forall>m1 o1 m2 o2 t1 e.
               calls = [(m1, o1), (m2, o2)] \<and> rs = [Inr t1, Inl e] \<longrightarrow>
               (\<exists>x1. messages s' = [\<lparr>role = Some User, parts = [Text_part m1]\<rparr>,
                                            \<lparr>role = Some Model, parts = [Text_part x1]\<rparr>,
                                            \<lparr>role = Some User, parts = [Text_part m2]\<rparr>]
                   \<and> TextResponse_text show_num t1 = Inr x1))"
proof -
  note all = send_all_session [OF assms(2)]
  note returned = send_all_returns_text [OF assms(2)]
  have log: "messages s' = concat (map2 (call_turns show_num) (map fst calls) rs)"
    using all assms(1) by simp
  have two: "\<exists>x1 x2. messages s' = [\<lparr>role = Some User, parts = [Text_part m1]\<rparr>,
                                            \<lparr>role = Some Model, parts = [Text_part x1]\<rparr>,
                                            \<lparr>role = Some User, parts = [Text_part m2]\<rparr>,
                                            \<lparr>role = Some Model, parts = [Text_part x2]\<rparr>]
                   \<and> TextResponse_text show_num t1 = Inr x1
                   \<and> TextResponse_text show_num t2 = Inr x2"
    if "calls = [(m1, o1), (m2, o2)] \<and> rs = [Inr t1, Inr t2]" for m1 o1 m2 o2 t1 t2
  proof -
    from that returned [of t1] returned [of t2] obtain x1 x2 where
      "TextResponse_text show_num t1 = Inr x1" "TextResponse_text show_num t2 = Inr x2"
      by auto
    with that log show ?thesis by (simp add: call_turns_def)
  qed
  have dangling: "\<exists>x1. messages s' = [\<lparr>role = Some User, parts = [Text_part m1]\<rparr>,
                                              \<lparr>role = Some Model, parts = [Text_part x1]\<rparr>,
                                              \<lparr>role = Some User, parts = [Text_part m2]\<rparr>]
                   \<and> TextResponse_text show_num t1 = Inr x1"
    if "calls = [(m1, o1), (m2, o2)] \<and> rs = [Inr t1, Inl e]" for m1 o1 m2 o2 t1 e
  proof -
    from that returned [of t1] obtain x1 where "TextResponse_text show_num t1 = Inr x1"
      by auto
    with that log show ?thesis by (simp add: call_turns_def)
  qed
  from all log returned send_request_succeeded [of show_num net] two dangling
  show ?thesis by (intro conjI allI impI) blast+
qed


lemma text_reply_body:
  "new_TextResponse (reply_body tx) = Inr \<lparr>raw = reply_body tx,
      priv_candidates = JArr [JObj [(''content'', JObj [(''parts'', JArr [JObj [(''text'', JStr tx)]])])]]\<rparr>"
  "TextResponse_text show_num \<lparr>raw = b,
      priv_candidates = JArr [JObj [(''content'', JObj [(''parts'', JArr [JObj [(''text'', JStr tx)]])])]]\<rparr>
     = Inr tx"
  by (auto simp: new_TextResponse_def reply_body_def then_do_def js_or_def TextResponse_text_def
      js_join_def)


lemma request_chat_network:
  "request show_num c chat_network ep data ns =
     (Inr (reply_body (if length (sent ns) = 0 then ''hello'' else ''sure'')),
      ns\<lparr>sent := sent ns @ [(request_url c ep, data)]\<rparr>)"
  by (rule request_ok) (simp add: chat_network_def attempt_ok_response)

lemma request_broken_chat_network:
  "request show_num c broken_chat_network ep data ns =
     (if length (sent ns) = 0 then Inr (reply_body ''hello'')
      else Inl (GeminiError ''[object Object]'' 400),
      ns\<lparr>sent := sent ns @ [(request_url c ep, data)]\<rparr>)"
proof -
  have "request show_num c broken_chat_network ep data ns =
     (if length (sent ns) = 0 then Inr (reply_body ''hello'')
      else Inl (GeminiError ''[object Object]'' 400),
      ns\<lparr>sent := sent ns @ replicate (Suc 0) (request_url c ep, data),
         sleeps := sleeps ns @ map backoff [1 ..< Suc 0]\<rparr>)"
    by (rule request_run)
       (simp_all add: broken_chat_network_def attempt_ok_response attempt_error_response
          settle_def isRetryableError_def)
  then show ?thesis by simp
qed

lemma send_all_chat_network:
  "send_all show_num chat_network example_session
     [(''hi'', no_options), (''again'', no_options)] net0 = (rs, s', ns') \<Longrightarrow>
   rs = [new_TextResponse (reply_body ''hello''), new_TextResponse (reply_body ''sure'')]"
  by (auto simp: ChatSession_send_def Let_def request_chat_network text_reply_body net0_def)

lemma send_all_broken_chat_network:
  "send_all show_num broken_chat_network example_session
     [(''hi'', no_options), (''again'', no_options)] net0 = (rs, s', ns') \<Longrightarrow>
   rs = [new_TextResponse (reply_body ''hello''),
         Inl (GeminiError ''[object Object]'' 400)]"
  by (auto simp: ChatSession_send_def Let_def request_broken_chat_network text_reply_body net0_def)

theorem chat_turn_log_witness:
  "messages (fst (snd (send_all example_show_num chat_network example_session
       [(''hi'', no_options), (''again'', no_options)] net0))) =
     [\<lparr>role = Some User, parts = [Text_part ''hi'']\<rparr>,
      \<lparr>role = Some Model, parts = [Text_part ''hello'']\<rparr>,
      \<lparr>role = Some User, parts = [Text_part ''again'']\<rparr>,
      \<lparr>role = Some Model, parts = [Text_part ''sure'']\<rparr>]
   \<and> messages (fst (snd (send_all example_show_num broken_chat_network example_session
       [(''hi'', no_options), (''again'', no_options)] net0))) =
     [\<lparr>role = Some User, parts = [Text_part ''hi'']\<rparr>,
      \<lparr>role = Some Model, parts = [Text_part ''hello'']\<rparr>,
      \<lparr>role = Some User, parts = [Text_part ''again'']\<rparr>]
   \<and> messages example_session = []"
proof -
  let ?calls = "[(''hi'', no_options), (''again'', no_options)]"
  have empty: "messages example_session = []"
    by (simp add: example_session_def new_ChatSession_def)
  obtain rs s' ns' where
    run: "send_all example_show_num chat_network example_session ?calls net0 = (rs, s', ns')"
    by (cases "send_all example_show_num chat_network example_session ?calls net0")
  obtain rs2 s2 ns2 where
    run2: "send_all example_show_num broken_chat_network example_session ?calls net0 = (rs2, s2, ns2)"
    by (cases "send_all example_show_num broken_chat_network example_session ?calls net0")
  have "messages s' = concat (map2 (call_turns example_show_num) (map fst ?calls) rs)"
    using chat_turn_log [OF empty run] by blast
  then have a: "messages s' =
      [\<lparr>role = Some User, parts = [Text_part ''hi'']\<rparr>,
       \<lparr>role = Some Model, parts = [Text_part ''hello'']\<rparr>,
       \<lparr>role = Some User, parts = [Text_part ''again'']\<rparr>,
       \<lparr>role = Some Model, parts = [Text_part ''sure'']\<rparr>]"
    unfolding send_all_chat_network [OF run]
    by (simp add: call_turns_def text_reply_body)
  have "messages s2 = concat (map2 (call_turns example_show_num) (map fst ?calls) rs2)"
    using chat_turn_log [OF empty run2] by blast
  then have b: "messages s2 = [\<lparr>role = Some User, parts = [Text_part ''hi'']\<rparr>,
                               \<lparr>role = Some Model, parts = [Text_part ''hello'']\<rparr>,
                               \<lparr>role = Some User, parts = [Text_part ''again'']\<rparr>]"
    unfolding send_all_broken_chat_network [OF run2]
    by (simp add: call_turns_def text_reply_body)
  show ?thesis unfolding run run2 using a b empty by simp
qed


lemma call_turns_roles: "t \<in> set (call_turns show_num message r) \<Longrightarrow> role t \<noteq> Some System"
  by (auto simp: call_turns_def split: sum.splits)

lemma concat_call_turns_roles:
  "t \<in> set (concat (map2 (call_turns show_num) ms rs)) \<Longrightarrow> role t \<noteq> Some System"
  by (auto simp: set_zip dest: call_turns_roles)

lemma send_sent:
  assumes "truthy_string (systemPrompt s)"
  shows "\<exists>n cfg. sent (snd (snd (ChatSession_send show_num net s message opts ns))) =
           sent ns @ replicate (Suc n)
             (request_url (client s) (generateContent_endpoint (session_model s)),
              Generate_content (\<lparr>role = Some System, parts = [Text_part (systemPrompt s)]\<rparr>
                                # messages s
                                @ [\<lparr>role = Some User, parts = [Text_part message]\<rparr>])
                cfg None)"
proof -
  let ?cfg = "\<lparr>temperature = or_default truthy_number (gen_temperature opts) 0.7,
               topK = or_default truthy_number (gen_topK opts) 40,
               topP = or_default truthy_number (gen_topP opts) 0.95,
               maxOutputTokens = or_default truthy_number (gen_maxTokens opts) 1024,
               stopSequences = None\<rparr>"
  let ?data = "Generate_content (\<lparr>role = Some System, parts = [Text_part (systemPrompt s)]\<rparr>
                                 # messages s
                                 @ [\<lparr>role = Some User, parts = [Text_part message]\<rparr>])
                 ?cfg None"
  let ?ep = "generateContent_endpoint (session_model s)"
  have "snd (snd (ChatSession_send show_num net s message opts ns)) =
          snd (request show_num (client s) net ?ep ?data ns)"
    using assms
    by (auto simp: ChatSession_send_def Let_def split: prod.splits sum.splits)
  moreover obtain n where "sent (snd (request show_num (client s) net ?ep ?data ns)) =
      sent ns @ replicate (Suc n) (request_url (client s) ?ep, ?data)"
    using request_sent by blast
  ultimately show ?thesis by metis
qed

text \<open>
  Claim C9. On a session with a system directive, every request of a call of \<open>send\<close>
  carries a freshly built system turn followed by the whole turn log (the user turn of
  the call included). The system turn is not stored: after any number of sends the log
  holds no turn of role \<open>system\<close> (when it held none before, as a new session's empty log
  does), and the directive is unchanged.
\<close>

theorem system_turn_not_persisted:
  assumes "truthy_string (systemPrompt s)"
    and "\<forall>t\<in>set (messages s). role t \<noteq> Some System"
  shows "(\<exists>n cfg. sent (snd (snd (ChatSession_send show_num net s message opts ns))) =
            sent ns @ replicate (Suc n)
              (request_url (client s) (generateContent_endpoint (session_model s)),
               Generate_content (\<lparr>role = Some System, parts = [Text_part (systemPrompt s)]\<rparr>
                                 # messages s
                                 @ [\<lparr>role = Some User, parts = [Text_part message]\<rparr>])
                 cfg None))
         \<and> (\<forall>t\<in>set (messages (fst (snd (send_all show_num net s calls ns)))).
               role t \<noteq> Some System)
         \<and> systemPrompt (fst (snd (send_all show_num net s calls ns))) = systemPrompt s"
proof -
  obtain rs s' ns' where run: "send_all show_num net s calls ns = (rs, s', ns')"
    by (cases "send_all show_num net s calls ns")
  from send_all_session [OF run]
  have m: "messages s' = messages s @ concat (map2 (call_turns show_num) (map fst calls) rs)"
    and p: "systemPrompt s' = systemPrompt s" by simp_all
  have "\<forall>t\<in>set (messages s'). role t \<noteq> Some System"
  proof
    fix t assume "t \<in> set (messages s')"
    then consider "t \<in> set (messages s)"
      | "t \<in> set (concat (map2 (call_turns show_num) (map fst calls) rs))"
      unfolding m by auto
    then show "role t \<noteq> Some System"
    proof cases
      case 1
      with assms(2) show ?thesis by blast
    next
      case 2
      then show ?thesis by (rule concat_call_turns_roles)
    qed
  qed
  with p send_sent [OF assms(1)] show ?thesis unfolding run by simp
qed

lemma no_system_role:
  "\<forall>t\<in>set xs. role t \<noteq> Some System \<Longrightarrow> Some System \<notin> set (map role xs)"
  by auto

theorem system_turn_not_persisted_witness:
  "(\<exists>n cfg. sent (snd (snd (ChatSession_send example_show_num chat_network system_session
               ''hi'' no_options net0))) =
            replicate (Suc n)
              (request_url example_client (generateContent_endpoint ''gemini-1.5-pro''),
               Generate_content [\<lparr>role = Some System, parts = [Text_part ''Be brief.'']\<rparr>,
                                 \<lparr>role = Some User, parts = [Text_part ''hi'']\<rparr>] cfg None))
   \<and> Some System \<notin> set (map role (messages (fst (snd (send_all example_show_num chat_network
         system_session [(''hi'', no_options), (''again'', no_options)] net0)))))
   \<and> truthy_string (systemPrompt system_session)
   \<and> messages system_session = []"
proof -
  have h1: "truthy_string (systemPrompt system_session)"
    by (simp add: system_session_def new_ChatSession_def or_default_def truthy_string_def)
  have h0: "messages system_session = []"
    by (simp add: system_session_def new_ChatSession_def)
  then have h2: "\<forall>t\<in>set (messages system_session). role t \<noteq> Some System" by simp
  have s: "client system_session = example_client" "session_model system_session = ''gemini-1.5-pro''"
    "systemPrompt system_session = ''Be brief.''"
    by (simp_all add: system_session_def new_ChatSession_def or_default_def truthy_string_def
        example_client_def)
  note inst = system_turn_not_persisted [OF h1 h2, of example_show_num chat_network "''hi''"
      no_options net0 "[(''hi'', no_options), (''again'', no_options)]"]
  from inst have a: "\<exists>n cfg. sent (snd (snd (ChatSession_send example_show_num chat_network
               system_session ''hi'' no_options net0))) =
            replicate (Suc n)
              (request_url example_client (generateContent_endpoint ''gemini-1.5-pro''),
               Generate_content [\<lparr>role = Some System, parts = [Text_part ''Be brief.'']\<rparr>,
                                 \<lparr>role = Some User, parts = [Text_part ''hi'']\<rparr>] cfg None)"
    unfolding s h0 by (simp add: net0_def)
  from inst have "\<forall>t\<in>set (messages (fst (snd (send_all example_show_num chat_network
         system_session [(''hi'', no_options), (''again'', no_options)] net0)))).
       role t \<noteq> Some System" by blast
  then have b: "Some System \<notin> set (map role (messages (fst (snd (send_all example_show_num
         chat_network system_session [(''hi'', no_options), (''again'', no_options)] net0)))))"
    by (rule no_system_role)
  from a b h1 h0 show ?thesis by blast
qed

end
